theory Spec2Isabelle
  imports Complex_Main "HOL-Library.AList" "HOL-Library.Char_ord" "HOL-Library.List_Lexorder"
begin

section \<open>JSON values and JavaScript objects\<close>

text \<open>
  The request body, the ledger records and the values bound to an SQL statement are
  JavaScript values that came out of \<^verbatim>\<open>JSON.parse\<close>. A number is an IEEE double in the
  source: a finite one is kept as the real it denotes (the code only copies and tests
  numbers), and the two infinities, which \<^verbatim>\<open>JSON.parse\<close> gives for a literal beyond the
  range of a double such as \<^verbatim>\<open>1e400\<close>, are values of their own. A string is the
  sequence of the bytes of its UTF-8 encoding. An object is an association list in the
  order of its properties, read through \<^const>\<open>map_of\<close>.
\<close>

datatype json =
    JNull
  | JBool bool
  | JNum real
  | JInfinity
  | JNegInfinity
  | JStr string
  | JArr "json list"
  | JObj "(string \<times> json) list"

type_synonym obj = "(string \<times> json) list"

text \<open>
  A property read \<^verbatim>\<open>o.k\<close> yields \<^verbatim>\<open>undefined\<close> for a missing key: the model's
  \<^const>\<open>None\<close>. \<open>truthy\<close> is JavaScript's ToBoolean on such a value (there is no NaN in
  JSON).
\<close>

fun truthy :: "json option \<Rightarrow> bool" where
  "truthy None = False"
| "truthy (Some JNull) = False"
| "truthy (Some (JBool b)) = b"
| "truthy (Some (JNum x)) = (x \<noteq> 0)"
| "truthy (Some JInfinity) = True"
| "truthy (Some JNegInfinity) = True"
| "truthy (Some (JStr s)) = (s \<noteq> [])"
| "truthy (Some (JArr xs)) = True"
| "truthy (Some (JObj kvs)) = True"

text \<open>The operator \<^verbatim>\<open>a || b\<close>.\<close>

definition js_or :: "json option \<Rightarrow> json option \<Rightarrow> json option" where
  "js_or a b = (if truthy a then a else b)"

text \<open>
  The spread \<^verbatim>\<open>{...dst, ...src}\<close>: each property of \<open>src\<close> is set in turn; a key that
  exists keeps its place and takes the new value, a new key goes to the end. A key
  written twice in the list is read at its first occurrence, so the later ones are
  dropped first.
\<close>

definition spread :: "obj \<Rightarrow> obj \<Rightarrow> obj" where
  "spread src dst = fold (\<lambda>(k, v). AList.update k v) (AList.clearjunk src) dst"

text \<open>
  \<^verbatim>\<open>JSON.parse(JSON.stringify(v))\<close>: \<^verbatim>\<open>JSON.stringify\<close> writes an infinite number
  as \<^verbatim>\<open>null\<close>, at any depth, and every other value of this type as a text that parses
  back to it.
\<close>

primrec reparse :: "json \<Rightarrow> json" where
  "reparse JNull = JNull"
| "reparse (JBool b) = JBool b"
| "reparse (JNum x) = JNum x"
| "reparse JInfinity = JNull"
| "reparse JNegInfinity = JNull"
| "reparse (JStr str) = JStr str"
| "reparse (JArr xs) = JArr (map reparse xs)"
| "reparse (JObj kvs) = JObj (map (map_prod id reparse) kvs)"

definition reparse_obj :: "obj \<Rightarrow> obj" where
  "reparse_obj kvs = map (map_prod id reparse) kvs"

text \<open>
  \<^verbatim>\<open>JSON.stringify\<close> of an object literal also drops the properties whose value is
  \<^verbatim>\<open>undefined\<close>; \<^verbatim>\<open>JSON.parse\<close> of the result gives the remaining ones.
\<close>

fun stringify_parse :: "(string \<times> json option) list \<Rightarrow> obj" where
  "stringify_parse [] = []"
| "stringify_parse ((k, None) # kvs) = stringify_parse kvs"
| "stringify_parse ((k, Some v) # kvs) = (k, reparse v) # stringify_parse kvs"

section \<open>The environment of one request and the state of the server\<close>

text \<open>
  What a handler reads from outside the program during one request: the identifier
  \<^verbatim>\<open>uuidv4()\<close> returns; \<^verbatim>\<open>new Date().toISOString()\<close> at the ledger write; the
  suffix \<^verbatim>\<open>Math.random().toString(36).substr(2, 9)\<close>; whether the call of the Fabric
  contract throws and whether \<^verbatim>\<open>pool.query\<close> throws, each with the error's message;
  the clock reading at the database call; and the message with which the database
  rejects a statement whose bound values it cannot accept.

  Two tables of the platform are read from the environment as well, since the program
  does not hold them. \<open>unicode_upper\<close> is \<^verbatim>\<open>String.prototype.toUpperCase\<close> on a string
  with a character outside ASCII (the Unicode case mapping). \<open>big_number\<close> is what
  becomes of an integer beyond \<open>2 ^ 53\<close> that \<^verbatim>\<open>parseInt\<close> read: the number is the
  double nearest to it, sent to the database as the decimal text of that double, and the
  database reads a row count from the text or rejects it (\<^const>\<open>None\<close>).
\<close>

record env =
  uuid :: string
  iso_now :: string
  rand36 :: string
  ledger_fault :: "string option"
  db_fault :: "string option"
  db_now :: nat
  sql_error :: string
  unicode_upper :: "string \<Rightarrow> string"
  big_number :: "int \<Rightarrow> nat option"

text \<open>
  Modelled from the spec: the table \<^verbatim>\<open>compliance_actions\<close> is not declared by the
  schema under src/ (init.sql does not create it). The spec calls it the Secondary Index,
  "a relational store mirroring ledger entries for fast filtered/paginated queries", with
  "insert/upsert keyed by id, and parametrized filtered select". The columns are those
  the INSERT of app.js names; a row holds the values bound to them, and \<open>ca_created_at\<close>,
  which the queries of the router order by and the database sets itself. The two times
  are clock readings. Whether the database accepts a row is the environment's
  \<open>db_fault\<close>.
\<close>

record db_row =
  ca_id :: "json option"
  ca_policy_id :: "json option"
  ca_action_taken :: "json option"
  ca_threat_description :: "json option"
  ca_confidence :: "json option"
  ca_status :: "json option"
  ca_timestamp :: nat
  ca_created_at :: nat

text \<open>
  Modelled from the spec: the table \<^verbatim>\<open>policies\<close> is not declared under src/ either;
  the spec only says that an action's \<open>policyId\<close> is a "reference to the policy that
  motivated the action (foreign, not required to exist for validity of this record)".
  The columns are those the router's queries select.
\<close>

record policy_row =
  p_id :: string
  p_standard :: string
  p_control :: string
  p_description :: string
  p_severity :: string

text \<open>
  The state: the flag \<^verbatim>\<open>blockchainEnabled\<close> of app.js, the array
  \<^verbatim>\<open>simulationContract.actions\<close>, the world state of the Fabric ledger the chaincode
  writes (key to record), and the two tables.
\<close>

record server =
  blockchainEnabled :: bool
  sim_actions :: "obj list"
  world_state :: "(string \<times> obj) list"
  compliance_actions :: "db_row list"
  policies :: "policy_row list"

datatype joined = Joined db_row "policy_row option"

datatype response =
    Ok_record obj
  | Ok_actions "obj list"
  | Ok_rows "db_row list"
  | Ok_joined "joined list"
  | Ok_joined_row joined
  | Error nat string

section \<open>Start-up: connectToBlockchain\<close>

text \<open>
  What \<^verbatim>\<open>connectToBlockchain\<close> finds at process start: the variable
  FABRIC_CONFIG_PATH, whether connection-org1.json exists, whether loading the client
  library, the profile or the wallet throws, whether the wallet holds the admin identity,
  and whether connecting the gateway or getting the network or contract throws.
\<close>

record startup =
  fabric_config_path :: "string option"
  ccp_exists :: bool
  load_throws :: bool
  admin_identity :: bool
  connect_throws :: bool

definition connectToBlockchain :: "startup \<Rightarrow> server \<Rightarrow> server" where
  "connectToBlockchain cfg s =
     (if fabric_config_path cfg = None \<or> fabric_config_path cfg = Some [] then s
      else if \<not> ccp_exists cfg then s
      else if load_throws cfg then s\<lparr>blockchainEnabled := False\<rparr>
      else if \<not> admin_identity cfg then s
      else if connect_throws cfg then s\<lparr>blockchainEnabled := False\<rparr>
      else s\<lparr>blockchainEnabled := True\<rparr>)"

text \<open>
  The module's top level: \<^verbatim>\<open>let blockchainEnabled = false\<close>,
  \<^verbatim>\<open>new SimulationMode()\<close> with no actions; the ledger and the tables are what the
  external stores hold when the process starts.
\<close>

definition initial :: "(string \<times> obj) list \<Rightarrow> db_row list \<Rightarrow> policy_row list \<Rightarrow> server" where
  "initial ws rows pols =
     \<lparr>blockchainEnabled = False, sim_actions = [], world_state = ws,
      compliance_actions = rows, policies = pols\<rparr>"

definition startServer :: "startup \<Rightarrow> (string \<times> obj) list \<Rightarrow> db_row list \<Rightarrow> policy_row list \<Rightarrow> server" where
  "startServer cfg ws rows pols = connectToBlockchain cfg (initial ws rows pols)"

section \<open>The two ledger backends\<close>

text \<open>
  \<^verbatim>\<open>SimulationMode.submitTransaction\<close>: the object literal
  \<^verbatim>\<open>{id: uuidv4(), ...actionData, status: 'EXECUTED', timestamp: ..., blockHash: ...}\<close>.
  The spread comes after \<open>id\<close> and before the other three keys. The argument is the
  handler's \<open>actionData\<close>; the method receives \<^verbatim>\<open>JSON.stringify\<close> of it and parses that.
  The record is pushed on the array, and the caller parses \<^verbatim>\<open>JSON.stringify\<close> of it.
\<close>

definition sim_submitTransaction :: "env \<Rightarrow> obj \<Rightarrow> obj list \<Rightarrow> obj \<times> obj list" where
  "sim_submitTransaction e actionData actions =
     (let complianceRecord =
            AList.update ''blockHash'' (JStr (''simulated-'' @ rand36 e))
              (AList.update ''timestamp'' (JStr (iso_now e))
                (AList.update ''status'' (JStr ''EXECUTED'')
                  (spread (reparse_obj actionData) [(''id'', JStr (uuid e))])))
      in (reparse_obj complianceRecord, actions @ [complianceRecord]))"

text \<open>
  \<^verbatim>\<open>evaluateTransaction\<close> returns \<^verbatim>\<open>JSON.stringify\<close> of the array, which the caller
  parses. Every record of the array was built from parsed JSON and strings, which
  \<^verbatim>\<open>JSON.stringify\<close> and \<^verbatim>\<open>JSON.parse\<close> give back unchanged (\<open>run_sim_actions_parsed\<close>
  below), so the caller gets the array.
\<close>

definition sim_evaluateTransaction :: "obj list \<Rightarrow> obj list" where
  "sim_evaluateTransaction actions = actions"

text \<open>
  The chaincode: \<^verbatim>\<open>ExecuteComplianceAction\<close> and \<^verbatim>\<open>QueryAllActions\<close>. The record
  is written under its id with \<^verbatim>\<open>putState\<close>, which replaces what the key held; the
  event the chaincode sets is not part of the state. The argument is the handler's
  \<open>actionData\<close>, which the chaincode receives as \<^verbatim>\<open>JSON.stringify\<close> of it and parses.
  The ledger holds, and the caller gets, \<^verbatim>\<open>JSON.stringify\<close> of the record: the model's
  record is the value that text parses to.
\<close>

definition ExecuteComplianceAction :: "env \<Rightarrow> obj \<Rightarrow> (string \<times> obj) list \<Rightarrow> obj \<times> (string \<times> obj) list" where
  "ExecuteComplianceAction e actionData ws =
     (let parsed = reparse_obj actionData;
          actionId = uuid e;
          complianceRecord = stringify_parse
            [(''id'', Some (JStr actionId)),
             (''timestamp'', Some (JStr (iso_now e))),
             (''policyId'', map_of parsed ''policyId''),
             (''threatDescription'', map_of parsed ''threatDescription''),
             (''actionTaken'', map_of parsed ''action''),
             (''status'', Some (JStr ''EXECUTED'')),
             (''confidence'', map_of parsed ''confidence''),
             (''targetEndpoints'', map_of parsed ''targetEndpoints''),
             (''docType'', Some (JStr ''complianceAction''))]
      in (complianceRecord, AList.update actionId complianceRecord ws))"

text \<open>The range scan of the whole key space lists the entries in key order.\<close>

definition QueryAllActions :: "(string \<times> obj) list \<Rightarrow> obj list" where
  "QueryAllActions ws =
     filter (\<lambda>r. map_of r ''docType'' = Some (JStr ''complianceAction''))
       (map snd (sort_key fst ws))"

text \<open>
  The ledger call of the create handler: the Fabric contract when the flag is set (the
  call throws, or the chaincode runs and its write is committed), the simulation
  otherwise. \<open>Inl\<close> carries the message of the error thrown.
\<close>

definition submitTransaction :: "env \<Rightarrow> obj \<Rightarrow> server \<Rightarrow> string + obj \<times> server" where
  "submitTransaction e actionData s =
     (if blockchainEnabled s then
        (case ledger_fault e of
           Some msg \<Rightarrow> Inl msg
         | None \<Rightarrow>
             (let (r, ws) = ExecuteComplianceAction e actionData (world_state s)
              in Inr (r, s\<lparr>world_state := ws\<rparr>)))
      else
        (let (r, acts) = sim_submitTransaction e actionData (sim_actions s)
         in Inr (r, s\<lparr>sim_actions := acts\<rparr>)))"

definition evaluateTransaction :: "env \<Rightarrow> server \<Rightarrow> string + obj list" where
  "evaluateTransaction e s =
     (if blockchainEnabled s then
        (case ledger_fault e of
           Some msg \<Rightarrow> Inl msg
         | None \<Rightarrow> Inr (QueryAllActions (world_state s)))
      else Inr (sim_evaluateTransaction (sim_actions s)))"

section \<open>The create handler of app.js\<close>

text \<open>The row the INSERT binds, and the INSERT inside its own try/catch.\<close>

definition insert_row :: "env \<Rightarrow> obj \<Rightarrow> db_row" where
  "insert_row e complianceRecord =
     \<lparr>ca_id = map_of complianceRecord ''id'',
      ca_policy_id = map_of complianceRecord ''policyId'',
      ca_action_taken = map_of complianceRecord ''action'',
      ca_threat_description = js_or (map_of complianceRecord ''threatDescription'') (Some (JStr [])),
      ca_confidence = js_or (map_of complianceRecord ''confidence'') (Some (JNum 0)),
      ca_status = js_or (map_of complianceRecord ''status'') (Some (JStr ''PENDING'')),
      ca_timestamp = db_now e,
      ca_created_at = db_now e\<rparr>"

definition store_in_database :: "env \<Rightarrow> obj \<Rightarrow> server \<Rightarrow> server" where
  "store_in_database e complianceRecord s =
     (case db_fault e of
        Some msg \<Rightarrow> s
      | None \<Rightarrow> s\<lparr>compliance_actions := compliance_actions s @ [insert_row e complianceRecord]\<rparr>)"

text \<open>\<^verbatim>\<open>triggerEnforcement\<close> only writes to the console, which is not part of the state.\<close>

definition triggerEnforcement :: "obj \<Rightarrow> server \<Rightarrow> server" where
  "triggerEnforcement action s = s"

text \<open>
  \<^verbatim>\<open>app.post('/api/compliance/action')\<close>. The body is the JSON object of the request;
  the required fields are \<open>policyId\<close> and \<open>action\<close> (the chaincode stores the latter as
  \<open>actionTaken\<close>).
\<close>

definition create :: "env \<Rightarrow> obj \<Rightarrow> server \<Rightarrow> response \<times> server" where
  "create e actionData s =
     (if \<not> truthy (map_of actionData ''policyId'') \<or> \<not> truthy (map_of actionData ''action'')
      then (Error 400 ''Missing required fields'', s)
      else
        (case submitTransaction e actionData s of
           Inl msg \<Rightarrow> (Error 500 msg, s)
         | Inr (complianceRecord, s1) \<Rightarrow>
             (Ok_record complianceRecord,
              triggerEnforcement complianceRecord (store_in_database e complianceRecord s1))))"

section \<open>The list handler of app.js\<close>

text \<open>
  \<^verbatim>\<open>app.get('/api/compliance/actions')\<close>: the ledger, then
  \<^verbatim>\<open>SELECT * FROM compliance_actions ORDER BY timestamp DESC\<close>, then status 500.
  Among rows of equal time the database may choose any order; the model's sort fixes one.
\<close>

definition list_actions :: "env \<Rightarrow> server \<Rightarrow> response" where
  "list_actions e s =
     (case evaluateTransaction e s of
        Inr actions \<Rightarrow> Ok_actions actions
      | Inl msg \<Rightarrow>
          (case db_fault e of
             None \<Rightarrow> Ok_rows (rev (sort_key ca_timestamp (compliance_actions s)))
           | Some dbmsg \<Rightarrow> Error 500 ''Failed to fetch actions from all sources''))"

section \<open>The routes over the Secondary Index\<close>

text \<open>
  \<^verbatim>\<open>String.prototype.toUpperCase\<close>. On a string of ASCII characters it maps the letters
  \<open>a\<close> to \<open>z\<close> to \<open>A\<close> to \<open>Z\<close> and leaves the rest; on any other string it is
  the environment's \<open>unicode_upper\<close>.
\<close>

definition is_ascii :: "char \<Rightarrow> bool" where
  "is_ascii c = ((of_char c :: nat) < 128)"

definition upper_char :: "char \<Rightarrow> char" where
  "upper_char c =
     (if 97 \<le> (of_char c :: nat) \<and> (of_char c :: nat) \<le> 122
      then char_of ((of_char c :: nat) - 32) else c)"

definition toUpperCase :: "env \<Rightarrow> string \<Rightarrow> string" where
  "toUpperCase e str =
     (if list_all is_ascii str then map upper_char str else unicode_upper e str)"

text \<open>
  \<^verbatim>\<open>parseInt\<close> with no radix. \<open>mathInt\<close> is the integer of the language definition:
  leading white space is skipped, a sign is read, a prefix \<^verbatim>\<open>0x\<close> selects radix 16, and
  the longest prefix of digits is the value; no digit gives \<^const>\<open>None\<close>. The result of
  \<^verbatim>\<open>parseInt\<close> is a number: NaN when there is no digit, the integer itself when it is at
  most \<open>2 ^ 53\<close> in absolute value (every such integer is a double), and otherwise a
  double near the integer, which the model does not compute: \<open>Inexact\<close> only records
  the integer that was read.
\<close>

datatype number = NaN | Exact int | Inexact int

text \<open>
  The number of bytes of the white space or line terminator a string begins with, 0 when
  it begins with neither: TAB, LF, VT, FF, CR and SP in one byte, U+00A0 in two, and
  U+1680, U+2000 to U+200A, U+2028, U+2029, U+202F, U+205F, U+3000 and U+FEFF in three.
\<close>

definition white_space_len :: "string \<Rightarrow> nat" where
  "white_space_len str =
     (case map (of_char :: char \<Rightarrow> nat) (take 3 str) of
        [] \<Rightarrow> 0
      | a # bs \<Rightarrow>
          if a \<in> {9, 10, 11, 12, 13, 32} then 1
          else if a = 194 \<and> take 1 bs = [160] then 2
          else if a = 225 \<and> bs = [154, 128] then 3
          else if a = 226 \<and> take 1 bs = [128] \<and> length bs = 2 \<and>
                  ((128 \<le> bs ! 1 \<and> bs ! 1 \<le> 138) \<or> bs ! 1 \<in> {168, 169, 175}) then 3
          else if a = 226 \<and> bs = [129, 159] then 3
          else if a = 227 \<and> bs = [128, 128] then 3
          else if a = 239 \<and> bs = [187, 191] then 3
          else 0)"

function trimStart :: "string \<Rightarrow> string" where
  "trimStart str =
     (if white_space_len str = 0 then str else trimStart (drop (white_space_len str) str))"
  by pat_completeness auto
termination
proof (relation "measure length")
  show "wf (measure length)" by simp
next
  fix str :: string
  assume "white_space_len str \<noteq> 0"
  moreover have "white_space_len [] = 0" by (simp add: white_space_len_def)
  ultimately have "str \<noteq> []" by auto
  with \<open>white_space_len str \<noteq> 0\<close> show "(drop (white_space_len str) str, str) \<in> measure length"
    by simp
qed

declare trimStart.simps [simp del]

definition digit_of :: "nat \<Rightarrow> char \<Rightarrow> nat option" where
  "digit_of radix c =
     (let n = (of_char c :: nat);
          d = (if 48 \<le> n \<and> n \<le> 57 then Some (n - 48)
               else if 97 \<le> n \<and> n \<le> 122 then Some (n - 87)
               else if 65 \<le> n \<and> n \<le> 90 then Some (n - 55)
               else None)
      in case d of None \<Rightarrow> None | Some v \<Rightarrow> if v < radix then Some v else None)"

fun digits :: "nat \<Rightarrow> string \<Rightarrow> nat list" where
  "digits radix [] = []"
| "digits radix (c # cs) =
     (case digit_of radix c of None \<Rightarrow> [] | Some d \<Rightarrow> d # digits radix cs)"

definition mathInt :: "string \<Rightarrow> int option" where
  "mathInt str =
     (let s = trimStart str;
          neg = (case s of [] \<Rightarrow> False | c # r \<Rightarrow> c = CHR ''-'');
          s1 = (case s of [] \<Rightarrow> s | c # r \<Rightarrow> if c = CHR ''-'' \<or> c = CHR ''+'' then r else s);
          hex = (case s1 of
                   a # b # r \<Rightarrow> a = CHR ''0'' \<and> (b = CHR ''x'' \<or> b = CHR ''X'')
                 | _ \<Rightarrow> False);
          radix = (if hex then 16 else 10);
          ds = digits radix (if hex then drop 2 s1 else s1)
      in if ds = [] then None
         else Some ((if neg then - 1 else 1) * int (foldl (\<lambda>a d. a * radix + d) 0 ds)))"

definition parseInt :: "string \<Rightarrow> number" where
  "parseInt str =
     (case mathInt str of
        None \<Rightarrow> NaN
      | Some n \<Rightarrow> if \<bar>n\<bar> \<le> 2 ^ 53 then Exact n else Inexact n)"

text \<open>
  The query string of \<^verbatim>\<open>router.get('/compliance/actions')\<close>: each parameter is absent
  or a string, as it is when the parameter is written at most once and without brackets.
\<close>

record list_query =
  q_severity :: "string option"
  q_status :: "string option"
  q_limit :: "string option"
  q_offset :: "string option"

text \<open>
  \<^verbatim>\<open>FROM compliance_actions ca LEFT JOIN policies p ON ca.policy_id = p.id\<close>: an action
  with no policy is kept, with the policy's columns NULL.
\<close>

definition left_join :: "db_row list \<Rightarrow> policy_row list \<Rightarrow> joined list" where
  "left_join rows pols =
     concat (map (\<lambda>r.
       (case filter (\<lambda>p. ca_policy_id r = Some (JStr (p_id p))) pols of
          [] \<Rightarrow> [Joined r None]
        | ps \<Rightarrow> map (\<lambda>p. Joined r (Some p)) ps)) rows)"

text \<open>
  The WHERE clause the handler builds: \<^verbatim>\<open>if (severity)\<close> adds
  \<^verbatim>\<open>p.severity = severity.toUpperCase()\<close>, \<^verbatim>\<open>if (status)\<close> adds
  \<^verbatim>\<open>ca.status = status.toUpperCase()\<close>. An empty string is falsy; a comparison with
  NULL is not true.
\<close>

fun severity_clause :: "env \<Rightarrow> string option \<Rightarrow> joined \<Rightarrow> bool" where
  "severity_clause e None j = True"
| "severity_clause e (Some sv) (Joined r p) =
     (if sv = [] then True
      else (case p of None \<Rightarrow> False | Some pr \<Rightarrow> p_severity pr = toUpperCase e sv))"

fun status_clause :: "env \<Rightarrow> string option \<Rightarrow> joined \<Rightarrow> bool" where
  "status_clause e None j = True"
| "status_clause e (Some st) (Joined r p) =
     (if st = [] then True else ca_status r = Some (JStr (toUpperCase e st)))"

fun created_at :: "joined \<Rightarrow> nat" where
  "created_at (Joined r p) = ca_created_at r"

text \<open>
  The selection before LIMIT and OFFSET, with \<^verbatim>\<open>ORDER BY ca.created_at DESC\<close>. Among
  rows of equal time the database may choose any order; the model's sort fixes one.
\<close>

definition select_actions :: "env \<Rightarrow> string option \<Rightarrow> string option \<Rightarrow> server \<Rightarrow> joined list" where
  "select_actions e severity status s =
     rev (sort_key created_at
       (filter (\<lambda>j. severity_clause e severity j \<and> status_clause e status j)
          (left_join (compliance_actions s) (policies s))))"

text \<open>
  The row count the database reads from a number bound to LIMIT or OFFSET. NaN and a
  negative number are rejected (\<^const>\<open>None\<close>); an integer up to \<open>2 ^ 53\<close> is sent as its
  own decimal text; beyond that the environment's \<open>big_number\<close> says what the database
  makes of the text of the double.
\<close>

fun bind_number :: "env \<Rightarrow> number \<Rightarrow> nat option" where
  "bind_number e NaN = None"
| "bind_number e (Exact n) = (if n < 0 then None else Some (nat n))"
| "bind_number e (Inexact n) = (if n < 0 then None else big_number e n)"

text \<open>
  The values bound to LIMIT and OFFSET: \<^verbatim>\<open>parseInt(limit)\<close> and
  \<^verbatim>\<open>parseInt(offset)\<close>, where the destructuring defaults \<^verbatim>\<open>limit = 100, offset = 0\<close>
  stand for an absent parameter.
\<close>

definition bound_limit :: "env \<Rightarrow> list_query \<Rightarrow> nat option" where
  "bound_limit e q =
     (case q_limit q of None \<Rightarrow> Some 100 | Some l \<Rightarrow> bind_number e (parseInt l))"

definition bound_offset :: "env \<Rightarrow> list_query \<Rightarrow> nat option" where
  "bound_offset e q =
     (case q_offset q of None \<Rightarrow> Some 0 | Some k \<Rightarrow> bind_number e (parseInt k))"

text \<open>
  \<^verbatim>\<open>router.get('/compliance/actions')\<close>. When the database rejects a bound value the
  handler answers 500 with the database's message.
\<close>

definition router_list :: "env \<Rightarrow> list_query \<Rightarrow> server \<Rightarrow> response" where
  "router_list e q s =
     (case db_fault e of
        Some msg \<Rightarrow> Error 500 msg
      | None \<Rightarrow>
          (case bound_limit e q of
             None \<Rightarrow> Error 500 (sql_error e)
           | Some l \<Rightarrow>
               (case bound_offset e q of
                  None \<Rightarrow> Error 500 (sql_error e)
                | Some k \<Rightarrow>
                    Ok_joined (take l (drop k
                      (select_actions e (q_severity q) (q_status q) s))))))"

text \<open>\<^verbatim>\<open>router.get('/compliance/actions/:id')\<close>: \<^verbatim>\<open>WHERE ca.id = $1\<close>, then \<^verbatim>\<open>rows[0]\<close>.\<close>

fun id_clause :: "string \<Rightarrow> joined \<Rightarrow> bool" where
  "id_clause ident (Joined r p) = (ca_id r = Some (JStr ident))"

definition router_get :: "env \<Rightarrow> string \<Rightarrow> server \<Rightarrow> response" where
  "router_get e ident s =
     (case db_fault e of
        Some msg \<Rightarrow> Error 500 msg
      | None \<Rightarrow>
          (case filter (id_clause ident) (left_join (compliance_actions s) (policies s)) of
             [] \<Rightarrow> Error 404 ''Compliance action not found''
           | row # rest \<Rightarrow> Ok_joined_row row))"

section \<open>The process: requests handled one after another\<close>

datatype request = Create obj | ListActions | RouterList list_query | RouterGet string

fun handle :: "env \<Rightarrow> request \<Rightarrow> server \<Rightarrow> response \<times> server" where
  "handle e (Create actionData) s = create e actionData s"
| "handle e ListActions s = (list_actions e s, s)"
| "handle e (RouterList q) s = (router_list e q s, s)"
| "handle e (RouterGet ident) s = (router_get e ident s, s)"

fun run :: "(env \<times> request) list \<Rightarrow> server \<Rightarrow> response list \<times> server" where
  "run [] s = ([], s)"
| "run ((e, r) # reqs) s =
     (case handle e r s of
        (resp, s1) \<Rightarrow> (case run reqs s1 of (resps, s2) \<Rightarrow> (resp # resps, s2)))"

section \<open>Predicates of the properties, and concrete requests and states\<close>

text \<open>
  The handshake at start-up succeeds when every step of \<^verbatim>\<open>connectToBlockchain\<close> does.
\<close>

definition handshake_ok :: "startup \<Rightarrow> bool" where
  "handshake_ok cfg =
     (fabric_config_path cfg \<noteq> None \<and> fabric_config_path cfg \<noteq> Some [] \<and> ccp_exists cfg \<and>
      \<not> load_throws cfg \<and> admin_identity cfg \<and> \<not> connect_throws cfg)"

text \<open>A record whose \<open>blockHash\<close> is a string that begins with \<^verbatim>\<open>simulated-\<close>.\<close>

definition simulated_hash :: "obj \<Rightarrow> bool" where
  "simulated_hash r =
     (case map_of r ''blockHash'' of Some (JStr h) \<Rightarrow> take 10 h = ''simulated-'' | _ \<Rightarrow> False)"

definition sim_record_ok :: "obj \<Rightarrow> bool" where
  "sim_record_ok r = (map_of r ''status'' = Some (JStr ''EXECUTED'') \<and> simulated_hash r)"

text \<open>The request of the spec's end-to-end scenario, with the field names the handler reads.\<close>

definition pol003_request :: obj where
  "pol003_request =
     [(''policyId'', JStr ''POL-003''), (''action'', JStr ''BLOCK_RDP_PORT''),
      (''confidence'', JNum 0.92)]"

text \<open>
  An environment in which nothing fails. Its last two fields are not consulted by any
  request evaluated below: their parameters are ASCII and their numbers small.
\<close>

definition healthy :: env where
  "healthy =
     \<lparr>uuid = ''3f2b8c1e'', iso_now = ''2024-05-01T10:00:00.000Z'', rand36 = ''k3x9q0z1a'',
      ledger_fault = None, db_fault = None, db_now = 1700,
      sql_error = ''invalid input syntax'',
      unicode_upper = (\<lambda>str. str), big_number = (\<lambda>n. None)\<rparr>"

definition ledger_down :: env where
  "ledger_down = healthy\<lparr>ledger_fault := Some ''ledger unreachable''\<rparr>"

definition db_down :: env where
  "db_down = healthy\<lparr>db_fault := Some ''connection refused''\<rparr>"

definition all_down :: env where
  "all_down =
     healthy\<lparr>ledger_fault := Some ''ledger unreachable'', db_fault := Some ''connection refused''\<rparr>"

definition not_configured :: startup where
  "not_configured =
     \<lparr>fabric_config_path = None, ccp_exists = False, load_throws = False,
      admin_identity = False, connect_throws = False\<rparr>"

definition configured :: startup where
  "configured =
     \<lparr>fabric_config_path = Some ''/config/fabric'', ccp_exists = True, load_throws = False,
      admin_identity = True, connect_throws = False\<rparr>"

definition handshake_fails :: startup where
  "handshake_fails = configured\<lparr>connect_throws := True\<rparr>"

definition simulation_server :: server where
  "simulation_server = startServer not_configured [] [] []"

definition fabric_server :: server where
  "fabric_server = startServer configured [] [] []"

text \<open>A payload that supplies a status of its own.\<close>

definition failed_status_request :: obj where
  "failed_status_request =
     [(''policyId'', JStr ''POL-003''), (''action'', JStr ''BLOCK_RDP_PORT''),
      (''status'', JStr ''FAILED'')]"

definition failed_status_simulated :: obj where
  "failed_status_simulated =
     [(''id'', JStr ''3f2b8c1e''), (''policyId'', JStr ''POL-003''),
      (''action'', JStr ''BLOCK_RDP_PORT''), (''status'', JStr ''EXECUTED''),
      (''timestamp'', JStr ''2024-05-01T10:00:00.000Z''),
      (''blockHash'', JStr ''simulated-k3x9q0z1a'')]"

text \<open>
  The record the simulation backend builds for the scenario's request, and the row the
  create handler mirrors into the index.
\<close>

definition pol003_simulated :: obj where
  "pol003_simulated =
     [(''id'', JStr ''3f2b8c1e''), (''policyId'', JStr ''POL-003''),
      (''action'', JStr ''BLOCK_RDP_PORT''), (''confidence'', JNum 0.92),
      (''status'', JStr ''EXECUTED''), (''timestamp'', JStr ''2024-05-01T10:00:00.000Z''),
      (''blockHash'', JStr ''simulated-k3x9q0z1a'')]"

definition pol003_row :: db_row where
  "pol003_row =
     \<lparr>ca_id = Some (JStr ''3f2b8c1e''), ca_policy_id = Some (JStr ''POL-003''),
      ca_action_taken = Some (JStr ''BLOCK_RDP_PORT''), ca_threat_description = Some (JStr []),
      ca_confidence = Some (JNum 0.92), ca_status = Some (JStr ''EXECUTED''),
      ca_timestamp = 1700, ca_created_at = 1700\<rparr>"

text \<open>A request with a confidence outside the unit interval.\<close>

definition overconfident_request :: obj where
  "overconfident_request =
     [(''policyId'', JStr ''POL-003''), (''action'', JStr ''BLOCK_RDP_PORT''),
      (''confidence'', JNum 1.5)]"

definition overconfident_simulated :: obj where
  "overconfident_simulated =
     [(''id'', JStr ''3f2b8c1e''), (''policyId'', JStr ''POL-003''),
      (''action'', JStr ''BLOCK_RDP_PORT''), (''confidence'', JNum 1.5),
      (''status'', JStr ''EXECUTED''), (''timestamp'', JStr ''2024-05-01T10:00:00.000Z''),
      (''blockHash'', JStr ''simulated-k3x9q0z1a'')]"

definition overconfident_row :: db_row where
  "overconfident_row =
     \<lparr>ca_id = Some (JStr ''3f2b8c1e''), ca_policy_id = Some (JStr ''POL-003''),
      ca_action_taken = Some (JStr ''BLOCK_RDP_PORT''), ca_threat_description = Some (JStr []),
      ca_confidence = Some (JNum 1.5), ca_status = Some (JStr ''EXECUTED''),
      ca_timestamp = 1700, ca_created_at = 1700\<rparr>"

text \<open>
  A request whose confidence was written \<^verbatim>\<open>1e400\<close> in the body, and what becomes of it
  in simulation mode.
\<close>

definition overflowing_request :: obj where
  "overflowing_request =
     [(''policyId'', JStr ''POL-003''), (''action'', JStr ''BLOCK_RDP_PORT''),
      (''confidence'', JInfinity)]"

definition overflowing_simulated :: obj where
  "overflowing_simulated =
     [(''id'', JStr ''3f2b8c1e''), (''policyId'', JStr ''POL-003''),
      (''action'', JStr ''BLOCK_RDP_PORT''), (''confidence'', JNull),
      (''status'', JStr ''EXECUTED''), (''timestamp'', JStr ''2024-05-01T10:00:00.000Z''),
      (''blockHash'', JStr ''simulated-k3x9q0z1a'')]"

definition overflowing_row :: db_row where
  "overflowing_row =
     \<lparr>ca_id = Some (JStr ''3f2b8c1e''), ca_policy_id = Some (JStr ''POL-003''),
      ca_action_taken = Some (JStr ''BLOCK_RDP_PORT''), ca_threat_description = Some (JStr []),
      ca_confidence = Some (JNum 0), ca_status = Some (JStr ''EXECUTED''),
      ca_timestamp = 1700, ca_created_at = 1700\<rparr>"

text \<open>
  The request as the spec's scenario writes it, with \<open>actionTaken\<close> where the handler
  reads \<open>action\<close>, and a request whose two required fields are an empty array and an
  empty object.
\<close>

definition scenario_request :: obj where
  "scenario_request =
     [(''policyId'', JStr ''POL-003''), (''actionTaken'', JStr ''BLOCK_RDP_PORT''),
      (''confidence'', JNum 0.92)]"

definition empty_containers_request :: obj where
  "empty_containers_request = [(''policyId'', JArr []), (''action'', JObj [])]"

text \<open>A request that carries an \<open>id\<close> of its own, and the environment of a second, later call.\<close>

definition client_id_request :: obj where
  "client_id_request =
     [(''policyId'', JStr ''POL-003''), (''action'', JStr ''BLOCK_RDP_PORT''),
      (''id'', JStr ''chosen-by-client'')]"

definition later :: env where
  "later = healthy\<lparr>uuid := ''9a7d44c2'', iso_now := ''2024-05-01T10:00:05.000Z'', rand36 := ''p0o9i8u7y'', db_now := 1705\<rparr>"

text \<open>The \<open>id\<close> of the record a create call answers with.\<close>

fun record_id :: "response \<Rightarrow> json option" where
  "record_id (Ok_record r) = map_of r ''id''"
| "record_id other = None"










text \<open>The record the chaincode commits for a request that carries an \<open>id\<close> of its own.\<close>

definition pol003_committed :: obj where
  "pol003_committed =
     [(''id'', JStr ''3f2b8c1e''), (''timestamp'', JStr ''2024-05-01T10:00:00.000Z''),
      (''policyId'', JStr ''POL-003''), (''actionTaken'', JStr ''BLOCK_RDP_PORT''),
      (''status'', JStr ''EXECUTED''), (''docType'', JStr ''complianceAction'')]"

section \<open>Facts about the model\<close>

lemma simulation_server_eq:
  "simulation_server =
     \<lparr>blockchainEnabled = False, sim_actions = [], world_state = [],
      compliance_actions = [], policies = []\<rparr>"
  by (simp add: simulation_server_def not_configured_def startServer_def connectToBlockchain_def
      initial_def)

lemma fabric_server_eq:
  "fabric_server =
     \<lparr>blockchainEnabled = True, sim_actions = [], world_state = [],
      compliance_actions = [], policies = []\<rparr>"
  by (simp add: fabric_server_def configured_def startServer_def connectToBlockchain_def
      initial_def)

subsection \<open>The records the two backends write\<close>

lemma reparse_idem: "reparse (reparse v) = reparse v"
  by (induction v) (auto simp add: prod.map_comp comp_def intro!: prod.map_cong0)

lemma map_of_reparse_obj: "map_of (reparse_obj kvs) k = map_option reparse (map_of kvs k)"
  by (induction kvs) (auto simp add: reparse_obj_def)

lemma reparse_obj_fixed:
  "(\<And>k v. (k, v) \<in> set kvs \<Longrightarrow> reparse v = v) \<Longrightarrow> reparse_obj kvs = kvs"
  unfolding reparse_obj_def by (rule map_idI) auto

lemma set_reparse_obj: "(k, v) \<in> set (reparse_obj kvs) \<Longrightarrow> reparse v = v"
  by (auto simp add: reparse_obj_def reparse_idem)

lemma set_update: "(k', v') \<in> set (AList.update k v al) \<Longrightarrow> (k', v') = (k, v) \<or> (k', v') \<in> set al"
  by (induction al) (auto split: if_splits)

lemma set_fold_update:
  "(k, v) \<in> set (fold (\<lambda>(k, v). AList.update k v) xs dst) \<Longrightarrow> (k, v) \<in> set xs \<or> (k, v) \<in> set dst"
proof (induction xs arbitrary: dst)
  case Nil
  then show ?case by simp
next
  case (Cons p xs)
  obtain a b where p: "p = (a, b)" by (cases p)
  from Cons.prems p have "(k, v) \<in> set (fold (\<lambda>(k, v). AList.update k v) xs (AList.update a b dst))"
    by simp
  then have "(k, v) \<in> set xs \<or> (k, v) \<in> set (AList.update a b dst)" by (rule Cons.IH)
  then show ?case using p by (auto dest: set_update)
qed

lemma set_clearjunk: "(k, v) \<in> set (AList.clearjunk al) \<Longrightarrow> (k, v) \<in> set al"
proof -
  assume a: "(k, v) \<in> set (AList.clearjunk al)"
  have "distinct (map fst (AList.clearjunk al))" by (rule distinct_clearjunk)
  with a have "map_of (AList.clearjunk al) k = Some v" by simp
  then have "map_of al k = Some v" by (simp add: map_of_clearjunk)
  then show ?thesis by (rule map_of_SomeD)
qed

lemma set_spread:
  "(k, v) \<in> set (spread src dst) \<Longrightarrow> (k, v) \<in> set src \<or> (k, v) \<in> set dst"
  unfolding spread_def by (auto dest!: set_fold_update dest: set_clearjunk)

lemma sim_record_parsed:
  "reparse_obj
     (AList.update ''blockHash'' (JStr h)
       (AList.update ''timestamp'' (JStr t)
         (AList.update ''status'' (JStr st)
           (spread (reparse_obj actionData) [(''id'', JStr u)])))) =
   AList.update ''blockHash'' (JStr h)
       (AList.update ''timestamp'' (JStr t)
         (AList.update ''status'' (JStr st)
           (spread (reparse_obj actionData) [(''id'', JStr u)])))"
  by (rule reparse_obj_fixed) (auto dest!: set_update set_spread dest: set_reparse_obj)

lemma sim_submitTransaction_eq:
  "sim_submitTransaction e actionData actions =
     (AList.update ''blockHash'' (JStr (''simulated-'' @ rand36 e))
        (AList.update ''timestamp'' (JStr (iso_now e))
          (AList.update ''status'' (JStr ''EXECUTED'')
            (spread (reparse_obj actionData) [(''id'', JStr (uuid e))]))),
      actions @
      [AList.update ''blockHash'' (JStr (''simulated-'' @ rand36 e))
        (AList.update ''timestamp'' (JStr (iso_now e))
          (AList.update ''status'' (JStr ''EXECUTED'')
            (spread (reparse_obj actionData) [(''id'', JStr (uuid e))])))])"
  by (simp add: sim_submitTransaction_def Let_def sim_record_parsed)

lemma map_of_fold_update:
  "distinct (map fst xs) \<Longrightarrow>
   map_of (fold (\<lambda>(k, v). AList.update k v) xs dst) k =
     (case map_of xs k of None \<Rightarrow> map_of dst k | Some v \<Rightarrow> Some v)"
proof (induction xs arbitrary: dst)
  case Nil
  then show ?case by simp
next
  case (Cons p xs)
  obtain a b where p: "p = (a, b)" by (cases p)
  from Cons.prems p have d: "distinct (map fst xs)" and a: "map_of xs a = None"
    by (auto simp add: map_of_eq_None_iff)
  have step: "map_of (fold (\<lambda>(k, v). AList.update k v) xs (AList.update a b dst)) k =
      (case map_of xs k of None \<Rightarrow> map_of (AList.update a b dst) k | Some v \<Rightarrow> Some v)"
    using d by (rule Cons.IH)
  show ?case
  proof (cases "k = a")
    case True
    with step a p show ?thesis by (simp add: update_conv')
  next
    case False
    with step p show ?thesis by (simp add: update_conv' split: option.splits)
  qed
qed

lemma map_of_spread:
  "map_of (spread src dst) k = (case map_of src k of None \<Rightarrow> map_of dst k | Some v \<Rightarrow> Some v)"
  by (simp add: spread_def map_of_fold_update distinct_clearjunk map_of_clearjunk)

lemma sim_record_status:
  "map_of (fst (sim_submitTransaction e actionData actions)) ''status'' = Some (JStr ''EXECUTED'')"
  by (simp add: sim_submitTransaction_eq update_conv')

lemma sim_record_blockHash:
  "map_of (fst (sim_submitTransaction e actionData actions)) ''blockHash'' =
     Some (JStr (''simulated-'' @ rand36 e))"
  by (simp add: sim_submitTransaction_eq update_conv')

lemma sim_record_confidence:
  "map_of (fst (sim_submitTransaction e actionData actions)) ''confidence'' =
     map_option reparse (map_of actionData ''confidence'')"
  by (simp add: sim_submitTransaction_eq update_conv' map_of_spread map_of_reparse_obj
      split: option.splits)

lemma sim_record_id:
  "map_of (fst (sim_submitTransaction e actionData actions)) ''id'' =
     (case map_of actionData ''id'' of None \<Rightarrow> Some (JStr (uuid e)) | Some v \<Rightarrow> Some (reparse v))"
  by (simp add: sim_submitTransaction_eq update_conv' map_of_spread map_of_reparse_obj
      split: option.splits)

lemma sim_record_pushed:
  "snd (sim_submitTransaction e actionData actions) =
     actions @ [fst (sim_submitTransaction e actionData actions)]"
  by (simp add: sim_submitTransaction_eq)

lemma sim_record_fixed:
  "reparse_obj (fst (sim_submitTransaction e actionData actions)) =
     fst (sim_submitTransaction e actionData actions)"
  by (simp add: sim_submitTransaction_eq sim_record_parsed)

lemma stringify_parse_absent:
  "k \<notin> fst ` set kvs \<Longrightarrow> map_of (stringify_parse kvs) k = None"
  by (induction kvs rule: stringify_parse.induct) auto

lemma map_of_stringify_parse:
  "distinct (map fst kvs) \<Longrightarrow>
   map_of (stringify_parse kvs) k =
     (case map_of kvs k of None \<Rightarrow> None | Some v \<Rightarrow> map_option reparse v)"
  by (induction kvs rule: stringify_parse.induct) (auto simp add: stringify_parse_absent)

lemma chaincode_record_fields:
  "map_of (fst (ExecuteComplianceAction e actionData ws)) ''status'' = Some (JStr ''EXECUTED'')"
  "map_of (fst (ExecuteComplianceAction e actionData ws)) ''id'' = Some (JStr (uuid e))"
  "map_of (fst (ExecuteComplianceAction e actionData ws)) ''confidence'' =
     map_option reparse (map_of actionData ''confidence'')"
  "map_of (fst (ExecuteComplianceAction e actionData ws)) ''blockHash'' = None"
  by (simp_all add: ExecuteComplianceAction_def Let_def map_of_stringify_parse map_of_reparse_obj
      option.map_comp comp_def reparse_idem split: option.splits)

lemma sim_record_ok_submit: "sim_record_ok (fst (sim_submitTransaction e actionData actions))"
  by (simp add: sim_record_ok_def simulated_hash_def sim_record_status sim_record_blockHash)

lemma chaincode_record_put:
  "map_of (snd (ExecuteComplianceAction e actionData ws)) (uuid e) =
     Some (fst (ExecuteComplianceAction e actionData ws))"
  by (simp add: ExecuteComplianceAction_def Let_def update_conv')

lemma local_submit:
  "\<not> blockchainEnabled s \<Longrightarrow>
   submitTransaction e actionData s =
     Inr (fst (sim_submitTransaction e actionData (sim_actions s)),
          s\<lparr>sim_actions := snd (sim_submitTransaction e actionData (sim_actions s))\<rparr>)"
  by (simp add: submitTransaction_def split_beta)

lemma local_evaluate:
  "\<not> blockchainEnabled s \<Longrightarrow> evaluateTransaction e s = Inr (sim_actions s)"
  by (simp add: evaluateTransaction_def sim_evaluateTransaction_def)

subsection \<open>What a run of requests preserves\<close>

lemma create_flag: "blockchainEnabled (snd (create e actionData s)) = blockchainEnabled s"
  by (simp add: create_def submitTransaction_def store_in_database_def triggerEnforcement_def
      split_beta Let_def split: option.splits)

lemma handle_flag: "blockchainEnabled (snd (handle e r s)) = blockchainEnabled s"
  by (cases r) (simp_all add: create_flag)

lemma run_flag: "blockchainEnabled (snd (run reqs s)) = blockchainEnabled s"
proof (induction reqs arbitrary: s)
  case Nil
  then show ?case by simp
next
  case (Cons a reqs)
  obtain e r where a: "a = (e, r)" by (cases a)
  have "blockchainEnabled (snd (run reqs (snd (handle e r s)))) =
          blockchainEnabled (snd (handle e r s))"
    by (rule Cons.IH)
  then show ?case by (simp add: a split_beta handle_flag)
qed

lemma create_world_state:
  "\<not> blockchainEnabled s \<Longrightarrow> world_state (snd (create e actionData s)) = world_state s"
  by (simp add: create_def submitTransaction_def store_in_database_def triggerEnforcement_def
      split_beta Let_def split: option.splits)

lemma handle_world_state:
  "\<not> blockchainEnabled s \<Longrightarrow> world_state (snd (handle e r s)) = world_state s"
  by (cases r) (simp_all add: create_world_state)

lemma run_world_state:
  "\<not> blockchainEnabled s \<Longrightarrow> world_state (snd (run reqs s)) = world_state s"
proof (induction reqs arbitrary: s)
  case Nil
  then show ?case by simp
next
  case (Cons a reqs)
  obtain e r where a: "a = (e, r)" by (cases a)
  have off: "\<not> blockchainEnabled (snd (handle e r s))"
    using Cons.prems by (simp add: handle_flag)
  have "world_state (snd (run reqs (snd (handle e r s)))) = world_state (snd (handle e r s))"
    using off by (rule Cons.IH)
  then show ?case using Cons.prems by (simp add: a split_beta handle_world_state)
qed

lemma create_sim_actions:
  "list_all sim_record_ok (sim_actions s) \<Longrightarrow>
   list_all sim_record_ok (sim_actions (snd (create e actionData s)))"
  using sim_record_ok_submit [of e actionData "sim_actions s"]
  by (auto simp add: create_def submitTransaction_def store_in_database_def
      triggerEnforcement_def sim_record_pushed split_beta Let_def split: option.splits)

lemma handle_sim_actions:
  "list_all sim_record_ok (sim_actions s) \<Longrightarrow>
   list_all sim_record_ok (sim_actions (snd (handle e r s)))"
  by (cases r) (simp_all add: create_sim_actions)

lemma run_sim_actions:
  "list_all sim_record_ok (sim_actions s) \<Longrightarrow>
   list_all sim_record_ok (sim_actions (snd (run reqs s)))"
proof (induction reqs arbitrary: s)
  case Nil
  then show ?case by simp
next
  case (Cons a reqs)
  obtain e r where a: "a = (e, r)" by (cases a)
  have "list_all sim_record_ok (sim_actions (snd (handle e r s)))"
    using Cons.prems by (rule handle_sim_actions)
  then have "list_all sim_record_ok (sim_actions (snd (run reqs (snd (handle e r s)))))"
    by (rule Cons.IH)
  then show ?case by (simp add: a split_beta)
qed

lemma create_sim_actions_parsed:
  "list_all (\<lambda>r. reparse_obj r = r) (sim_actions s) \<Longrightarrow>
   list_all (\<lambda>r. reparse_obj r = r) (sim_actions (snd (create e actionData s)))"
  using sim_record_fixed [of e actionData "sim_actions s"]
  by (auto simp add: create_def submitTransaction_def store_in_database_def
      triggerEnforcement_def sim_record_pushed split_beta Let_def split: option.splits)

lemma handle_sim_actions_parsed:
  "list_all (\<lambda>r. reparse_obj r = r) (sim_actions s) \<Longrightarrow>
   list_all (\<lambda>r. reparse_obj r = r) (sim_actions (snd (handle e r s)))"
  by (cases r) (simp_all add: create_sim_actions_parsed)

lemma run_sim_actions_parsed:
  "list_all (\<lambda>r. reparse_obj r = r) (sim_actions s) \<Longrightarrow>
   list_all (\<lambda>r. reparse_obj r = r) (sim_actions (snd (run reqs s)))"
proof (induction reqs arbitrary: s)
  case Nil
  then show ?case by simp
next
  case (Cons a reqs)
  obtain e r where a: "a = (e, r)" by (cases a)
  have "list_all (\<lambda>r. reparse_obj r = r) (sim_actions (snd (handle e r s)))"
    using Cons.prems by (rule handle_sim_actions_parsed)
  then have "list_all (\<lambda>r. reparse_obj r = r) (sim_actions (snd (run reqs (snd (handle e r s)))))"
    by (rule Cons.IH)
  then show ?case by (simp add: a split_beta)
qed

lemma startServer_flag: "blockchainEnabled (startServer cfg ws rows pols) = handshake_ok cfg"
  by (simp add: startServer_def connectToBlockchain_def initial_def handshake_ok_def)

lemma startServer_world_state: "world_state (startServer cfg ws rows pols) = ws"
  by (simp add: startServer_def connectToBlockchain_def initial_def)

lemma startServer_sim_actions: "sim_actions (startServer cfg ws rows pols) = []"
  by (simp add: startServer_def connectToBlockchain_def initial_def)

subsection \<open>The join and the lookup by id\<close>


lemma left_join_sound: "Joined r p \<in> set (left_join rows pols) \<Longrightarrow> r \<in> set rows"
proof -
  assume "Joined r p \<in> set (left_join rows pols)"
  then obtain r' where r': "r' \<in> set rows"
    and j: "Joined r p \<in> set (case filter (\<lambda>p. ca_policy_id r' = Some (JStr (p_id p))) pols of
          [] \<Rightarrow> [Joined r' None] | ps \<Rightarrow> map (\<lambda>p. Joined r' (Some p)) ps)"
    by (auto simp add: left_join_def)
  from j have "r = r'"
    by (cases "filter (\<lambda>p. ca_policy_id r' = Some (JStr (p_id p))) pols") auto
  with r' show ?thesis by simp
qed


lemma router_get_absent:
  assumes "db_fault e = None"
      and "\<forall>r \<in> set (compliance_actions s). ca_id r \<noteq> Some (JStr ident)"
  shows "router_get e ident s = Error 404 ''Compliance action not found''"
proof -
  let ?hits = "filter (id_clause ident) (left_join (compliance_actions s) (policies s))"
  have "?hits = []"
  proof (rule ccontr)
    assume "?hits \<noteq> []"
    then obtain j where jin: "j \<in> set (left_join (compliance_actions s) (policies s))"
      and jid: "id_clause ident j"
      by (auto simp add: filter_empty_conv)
    obtain row q where j: "j = Joined row q" by (cases j)
    from jin j have "row \<in> set (compliance_actions s)" by (auto dest: left_join_sound)
    with assms(2) jid j show False by auto
  qed
  with assms(1) show ?thesis by (simp add: router_get_def)
qed

lemma router_get_ledger_free:
  "router_get e ident (s\<lparr>blockchainEnabled := b, sim_actions := acts, world_state := ws\<rparr>) =
     router_get e ident s"
  by (simp add: router_get_def split: option.splits)

subsection \<open>The concrete requests, evaluated\<close>

lemmas eval_create = create_def submitTransaction_def sim_submitTransaction_def ExecuteComplianceAction_def
  store_in_database_def triggerEnforcement_def insert_row_def js_or_def spread_def Let_def
  reparse_obj_def stringify_parse.simps

lemmas eval_env = healthy_def db_down_def ledger_down_def all_down_def

lemma run_failed_status:
  "sim_actions (snd (run [(healthy, Create failed_status_request)] (startServer not_configured [] [] []))) =
     [failed_status_simulated]"
  by (simp add: eval_create healthy_def failed_status_request_def failed_status_simulated_def
      not_configured_def startServer_def connectToBlockchain_def initial_def)


lemma create_healthy_sim:
  "create healthy pol003_request simulation_server =
     (Ok_record pol003_simulated,
      simulation_server\<lparr>sim_actions := [pol003_simulated], compliance_actions := [pol003_row]\<rparr>)"
  by (simp add: eval_create eval_env pol003_request_def pol003_simulated_def pol003_row_def simulation_server_eq)

lemma create_overflowing:
  "create healthy overflowing_request simulation_server =
     (Ok_record overflowing_simulated,
      simulation_server
        \<lparr>sim_actions := [overflowing_simulated], compliance_actions := [overflowing_row]\<rparr>)"
  by (simp add: eval_create eval_env overflowing_request_def
      overflowing_simulated_def overflowing_row_def simulation_server_eq)

lemma store_in_database_ok:
  "db_fault e = None \<Longrightarrow>
   compliance_actions (store_in_database e r s) = compliance_actions s @ [insert_row e r]"
  by (simp add: store_in_database_def)

lemma insert_row_confidence:
  "ca_confidence (insert_row e r) =
     (if truthy (map_of r ''confidence'') then map_of r ''confidence'' else Some (JNum 0))"
  by (simp add: insert_row_def js_or_def)

lemma create_client_id_fabric:
  "create healthy client_id_request fabric_server =
     (Ok_record pol003_committed,
      fabric_server
        \<lparr>world_state := [(''3f2b8c1e'', pol003_committed)],
         compliance_actions :=
           [\<lparr>ca_id = Some (JStr ''3f2b8c1e''), ca_policy_id = Some (JStr ''POL-003''),
             ca_action_taken = None, ca_threat_description = Some (JStr []),
             ca_confidence = Some (JNum 0), ca_status = Some (JStr ''EXECUTED''),
             ca_timestamp = 1700, ca_created_at = 1700\<rparr>]\<rparr>)"
  by (simp add: eval_create eval_env client_id_request_def pol003_committed_def fabric_server_eq)

subsection \<open>The filtered and paginated selection\<close>
















section \<open>The claims\<close>

text \<open>
  Claim C1, as stated, fails. With the Fabric backend active and its
  \<^verbatim>\<open>submitTransaction\<close> throwing, the valid request of the scenario is answered with
  status 500 and the error's message; no record is returned or stored, and a later list,
  served from the index because the ledger still fails, is empty.
\<close>

theorem ledger_fault_counterexample:
  "create ledger_down pol003_request fabric_server =
     (Error 500 ''ledger unreachable'', fabric_server) \<and>
   list_actions ledger_down fabric_server = Ok_rows []"
  by (simp add: create_def list_actions_def submitTransaction_def evaluateTransaction_def
      eval_env pol003_request_def fabric_server_eq)

text \<open>
  Claim C1, amended. For a valid create request, when the ledger write fails (the Fabric
  contract's call throws; the simulation's write cannot fail) the handler answers status
  500 with the error's message and leaves the ledger and the index untouched; and every
  record a create call does return has status EXECUTED, so no record with status FAILED
  is ever returned.
\<close>

theorem ledger_fault_answers_500:
  assumes "truthy (map_of actionData ''policyId'')" and "truthy (map_of actionData ''action'')"
  shows "(blockchainEnabled s \<and> ledger_fault e = Some msg \<longrightarrow>
            create e actionData s = (Error 500 msg, s)) \<and>
         (\<forall>r s1. create e actionData s = (Ok_record r, s1) \<longrightarrow>
            map_of r ''status'' = Some (JStr ''EXECUTED''))"
proof -
  have a: "create e actionData s = (Error 500 msg, s)" if "blockchainEnabled s" "ledger_fault e = Some msg"
    using assms that by (simp add: create_def submitTransaction_def)
  have b: "map_of r ''status'' = Some (JStr ''EXECUTED'')" if "create e actionData s = (Ok_record r, s1)" for r s1
    using that assms sim_record_status [of e actionData "sim_actions s"]
      chaincode_record_fields(1) [of e actionData "world_state s"]
    by (auto simp add: create_def submitTransaction_def split_beta
        split: if_splits option.splits)
  from a b show ?thesis by blast
qed

theorem ledger_fault_answers_500_witness:
  "truthy (map_of pol003_request ''policyId'') \<and> truthy (map_of pol003_request ''action'') \<and>
   blockchainEnabled fabric_server \<and> ledger_fault ledger_down = Some ''ledger unreachable'' \<and>
   create ledger_down pol003_request fabric_server = (Error 500 ''ledger unreachable'', fabric_server)"
  using ledger_fault_answers_500 [of pol003_request fabric_server ledger_down "''ledger unreachable''"]
  by (simp add: pol003_request_def fabric_server_eq eval_env)

text \<open>
  Claim C2, as stated, fails. With the ledger and the index both failing, the list
  handler answers status 500; there is no built-in default set of actions.
\<close>

theorem list_without_default_set:
  "list_actions all_down fabric_server = Error 500 ''Failed to fetch actions from all sources''"
  by (simp add: list_actions_def evaluateTransaction_def eval_env fabric_server_eq)

text \<open>
  Claim C2, amended. The list handler of app.js serves the ledger scan when the ledger
  call succeeds; when it throws, the rows of the index, newest timestamp first; when that
  throws too, status 500 \<^verbatim>\<open>Failed to fetch actions from all sources\<close>. The lookup by
  id reads the index only, whatever the ledger holds: 404 when no row has the id, 500
  with the database's message when the query throws.
\<close>

theorem read_fallback_chain:
  "((blockchainEnabled s \<longrightarrow> ledger_fault e = None) \<longrightarrow>
      list_actions e s = Ok_actions (if blockchainEnabled s then QueryAllActions (world_state s) else sim_actions s)) \<and>
   (blockchainEnabled s \<and> ledger_fault e = Some msg \<and> db_fault e = None \<longrightarrow>
      list_actions e s = Ok_rows (rev (sort_key ca_timestamp (compliance_actions s)))) \<and>
   (blockchainEnabled s \<and> ledger_fault e = Some msg \<and> db_fault e = Some dbmsg \<longrightarrow>
      list_actions e s = Error 500 ''Failed to fetch actions from all sources'') \<and>
   (db_fault e = None \<and> (\<forall>r \<in> set (compliance_actions s). ca_id r \<noteq> Some (JStr ident)) \<longrightarrow>
      router_get e ident s = Error 404 ''Compliance action not found'') \<and>
   (db_fault e = Some dbmsg \<longrightarrow> router_get e ident s = Error 500 dbmsg) \<and>
   router_get e ident (s\<lparr>blockchainEnabled := b, sim_actions := acts, world_state := ws\<rparr>) = router_get e ident s"
proof -
  have l1: "list_actions e s = Ok_actions (if blockchainEnabled s then QueryAllActions (world_state s) else sim_actions s)"
    if "blockchainEnabled s \<longrightarrow> ledger_fault e = None"
    using that by (simp add: list_actions_def evaluateTransaction_def sim_evaluateTransaction_def)
  have l2: "list_actions e s = Ok_rows (rev (sort_key ca_timestamp (compliance_actions s)))"
    if "blockchainEnabled s" "ledger_fault e = Some msg" "db_fault e = None"
    using that by (simp add: list_actions_def evaluateTransaction_def)
  have l3: "list_actions e s = Error 500 ''Failed to fetch actions from all sources''"
    if "blockchainEnabled s" "ledger_fault e = Some msg" "db_fault e = Some dbmsg"
    using that by (simp add: list_actions_def evaluateTransaction_def)
  have g1: "router_get e ident s = Error 404 ''Compliance action not found''"
    if "db_fault e = None" "\<forall>r \<in> set (compliance_actions s). ca_id r \<noteq> Some (JStr ident)"
    using that by (rule router_get_absent)
  have g2: "router_get e ident s = Error 500 dbmsg" if "db_fault e = Some dbmsg"
    using that by (simp add: router_get_def)
  from l1 l2 l3 g1 g2 router_get_ledger_free show ?thesis by blast
qed

theorem read_fallback_chain_witness:
  "blockchainEnabled (fabric_server\<lparr>compliance_actions := [pol003_row]\<rparr>) \<and>
   ledger_fault ledger_down = Some ''ledger unreachable'' \<and> db_fault ledger_down = None \<and>
   list_actions ledger_down (fabric_server\<lparr>compliance_actions := [pol003_row]\<rparr>) = Ok_rows [pol003_row] \<and>
   router_get ledger_down ''no-such-id'' (fabric_server\<lparr>compliance_actions := [pol003_row]\<rparr>) =
     Error 404 ''Compliance action not found''"
  using read_fallback_chain
    [of "fabric_server\<lparr>compliance_actions := [pol003_row]\<rparr>" ledger_down "''ledger unreachable''"
        "''connection refused''" "''no-such-id''"]
  by (simp add: fabric_server_eq eval_env pol003_row_def)




text \<open>
  Claim C4, as stated, fails. In simulation mode a request with confidence 1.5 is
  accepted, and 1.5 is the confidence of the record the simulated ledger then holds and
  of the row the index then holds.
\<close>

theorem confidence_stored_out_of_range:
  "create healthy overconfident_request simulation_server =
     (Ok_record overconfident_simulated,
      simulation_server
        \<lparr>sim_actions := [overconfident_simulated], compliance_actions := [overconfident_row]\<rparr>) \<and>
   map_of overconfident_simulated ''confidence'' = Some (JNum 1.5) \<and>
   ca_confidence overconfident_row = Some (JNum 1.5) \<and>
   \<not> (1.5 :: real) \<le> 1"
  by (simp add: eval_create eval_env overconfident_request_def overconfident_simulated_def
      overconfident_row_def simulation_server_eq)

text \<open>
  Claim C4, amended. The confidence is neither checked against a range, nor a reason to
  reject, nor clamped: every request whose \<open>policyId\<close> and \<open>action\<close> are truthy and
  whose ledger write does not throw is answered with a record, whatever its confidence.
  The record, which is the record the ledger holds, has the confidence of the request as
  \<^verbatim>\<open>JSON.stringify\<close> and \<^verbatim>\<open>JSON.parse\<close> leave it: a finite number such as 1.5 or
  -0.2 unchanged, \<^verbatim>\<open>null\<close> for a number that overflowed to an infinity, no field when
  the request has none. The row mirrored into the index has the record's confidence when
  that is truthy and 0 otherwise; for a finite number that is the number of the request.
\<close>

theorem confidence_stored_as_given:
  assumes "truthy (map_of actionData ''policyId'')" and "truthy (map_of actionData ''action'')"
      and "blockchainEnabled s \<longrightarrow> ledger_fault e = None"
  shows "\<exists>r s1. create e actionData s = (Ok_record r, s1) \<and>
           map_of r ''confidence'' = map_option reparse (map_of actionData ''confidence'') \<and>
           (if blockchainEnabled s then map_of (world_state s1) (uuid e) = Some r
            else sim_actions s1 = sim_actions s @ [r]) \<and>
           (db_fault e = None \<longrightarrow>
              compliance_actions s1 = compliance_actions s @ [insert_row e r]) \<and>
           ca_confidence (insert_row e r) =
             (if truthy (map_of r ''confidence'') then map_of r ''confidence'' else Some (JNum 0)) \<and>
           (\<forall>x. map_of actionData ''confidence'' = Some (JNum x) \<longrightarrow>
              map_of r ''confidence'' = Some (JNum x) \<and>
              ca_confidence (insert_row e r) = Some (JNum x))"
proof -
  from assms(3) obtain r mid where sub: "submitTransaction e actionData s = Inr (r, mid)"
    by (cases "blockchainEnabled s") (auto simp add: submitTransaction_def split_beta)
  let ?s1 = "store_in_database e r mid"
  have cr: "create e actionData s = (Ok_record r, ?s1)"
    using assms(1,2) sub by (simp add: create_def triggerEnforcement_def)
  have conf: "map_of r ''confidence'' = map_option reparse (map_of actionData ''confidence'')"
    using sub sim_record_confidence [of e actionData "sim_actions s"]
      chaincode_record_fields(3) [of e actionData "world_state s"]
    by (auto simp add: submitTransaction_def split_beta split: if_splits option.splits)
  have ledger: "if blockchainEnabled s then map_of (world_state mid) (uuid e) = Some r
          else sim_actions mid = sim_actions s @ [r]"
    using sub sim_record_pushed [of e actionData "sim_actions s"]
      chaincode_record_put [of e actionData "world_state s"]
    by (auto simp add: submitTransaction_def split_beta split: if_splits option.splits)
  have same: "world_state ?s1 = world_state mid" "sim_actions ?s1 = sim_actions mid"
    by (simp_all add: store_in_database_def split: option.splits)
  have rows: "compliance_actions mid = compliance_actions s"
    using sub by (auto simp add: submitTransaction_def split_beta split: if_splits option.splits)
  have db: "compliance_actions ?s1 = compliance_actions s @ [insert_row e r]" if "db_fault e = None"
    using that rows by (simp add: store_in_database_ok)
  have num: "map_of r ''confidence'' = Some (JNum x) \<and> ca_confidence (insert_row e r) = Some (JNum x)"
    if "map_of actionData ''confidence'' = Some (JNum x)" for x
    using that conf by (simp add: insert_row_confidence)
  from cr conf ledger same db num show ?thesis
    by (simp add: insert_row_confidence)
qed

theorem confidence_stored_as_given_witness:
  "truthy (map_of overflowing_request ''policyId'') \<and>
   truthy (map_of overflowing_request ''action'') \<and>
   \<not> blockchainEnabled simulation_server \<and>
   map_of overflowing_request ''confidence'' = Some JInfinity \<and>
   create healthy overflowing_request simulation_server =
     (Ok_record overflowing_simulated,
      simulation_server
        \<lparr>sim_actions := [overflowing_simulated], compliance_actions := [overflowing_row]\<rparr>) \<and>
   map_of overflowing_simulated ''confidence'' = Some JNull \<and>
   ca_confidence overflowing_row = Some (JNum 0) \<and>
   map_of pol003_request ''confidence'' = Some (JNum 0.92) \<and>
   create healthy pol003_request simulation_server =
     (Ok_record pol003_simulated,
      simulation_server\<lparr>sim_actions := [pol003_simulated], compliance_actions := [pol003_row]\<rparr>) \<and>
   map_of pol003_simulated ''confidence'' = Some (JNum 0.92) \<and>
   ca_confidence pol003_row = Some (JNum 0.92)"
proof -
  have off: "blockchainEnabled simulation_server \<longrightarrow> ledger_fault healthy = None"
    and sim: "\<not> blockchainEnabled simulation_server"
    by (simp_all add: simulation_server_eq)
  have p1: "truthy (map_of overflowing_request ''policyId'')"
    and a1: "truthy (map_of overflowing_request ''action'')"
    and c1: "map_of overflowing_request ''confidence'' = Some JInfinity"
    by (simp_all add: overflowing_request_def)
  have p2: "truthy (map_of pol003_request ''policyId'')"
    and a2: "truthy (map_of pol003_request ''action'')"
    and c2: "map_of pol003_request ''confidence'' = Some (JNum 0.92)"
    by (simp_all add: pol003_request_def)
  from confidence_stored_as_given [OF p1 a1 off] create_overflowing
  have "map_of overflowing_simulated ''confidence'' =
      map_option reparse (map_of overflowing_request ''confidence'')"
    by auto
  with c1 have r1: "map_of overflowing_simulated ''confidence'' = Some JNull" by simp
  have w1: "ca_confidence overflowing_row = Some (JNum 0)" by (simp add: overflowing_row_def)
  from confidence_stored_as_given [OF p2 a2 off] create_healthy_sim c2
  have r2: "map_of pol003_simulated ''confidence'' = Some (JNum 0.92)"
    by auto
  have w2: "ca_confidence pol003_row = Some (JNum 0.92)" by (simp add: pol003_row_def)
  from p1 a1 sim c1 create_overflowing r1 w1 c2 create_healthy_sim r2 w2 show ?thesis
    by blast
qed

text \<open>
  Claim C5. The claim holds on the chaincode, whose record takes its \<open>id\<close> from
  \<^verbatim>\<open>uuidv4()\<close> alone (\<open>chaincode_record_fields\<close>), and fails on the simulation backend,
  where the spread of the request comes after \<open>id\<close> in the object literal
  (\<open>sim_record_id\<close>): two create calls that carry the same \<open>id\<close> are answered with
  records of that same id, although \<^verbatim>\<open>uuidv4()\<close> returned two different identifiers.
\<close>

theorem client_id_reused:
  "uuid healthy \<noteq> uuid later \<and>
   map record_id
     (fst (run [(healthy, Create client_id_request), (later, Create client_id_request)]
        simulation_server)) =
     [Some (JStr ''chosen-by-client''), Some (JStr ''chosen-by-client'')]"
  by (simp add: eval_create eval_env later_def client_id_request_def simulation_server_eq)

text \<open>
  Claim C6. When the request is valid, the ledger write succeeds and the INSERT into the
  index throws, the create handler answers with the record the ledger wrote and leaves
  exactly the state the ledger write produced: the record is in the ledger (under its
  key in the Fabric world state, or appended to the simulation's array) and the index is
  as it was.
\<close>

theorem mirror_failure_swallowed:
  assumes "truthy (map_of actionData ''policyId'')" and "truthy (map_of actionData ''action'')"
      and "submitTransaction e actionData s = Inr (complianceRecord, s1)"
      and "db_fault e = Some msg"
    shows "create e actionData s = (Ok_record complianceRecord, s1) \<and>
           (if blockchainEnabled s
            then map_of (world_state s1) (uuid e) = Some complianceRecord
            else sim_actions s1 = sim_actions s @ [complianceRecord]) \<and>
           compliance_actions s1 = compliance_actions s"
proof -
  have resp: "create e actionData s = (Ok_record complianceRecord, s1)"
    using assms by (simp add: create_def store_in_database_def triggerEnforcement_def)
  have ledger: "if blockchainEnabled s
            then map_of (world_state s1) (uuid e) = Some complianceRecord
            else sim_actions s1 = sim_actions s @ [complianceRecord]"
  proof (cases "blockchainEnabled s")
    case True
    with assms(3) show ?thesis
      using chaincode_record_put [of e actionData "world_state s"]
      by (auto simp add: submitTransaction_def split_beta split: option.splits)
  next
    case False
    with assms(3) show ?thesis
      using sim_record_pushed [of e actionData "sim_actions s"]
      by (auto simp add: submitTransaction_def split_beta)
  qed
  have db: "compliance_actions s1 = compliance_actions s"
    using assms(3) by (auto simp add: submitTransaction_def split_beta split: if_splits option.splits)
  from resp ledger db show ?thesis by blast
qed

theorem mirror_failure_swallowed_witness:
  "truthy (map_of pol003_request ''policyId'') \<and> truthy (map_of pol003_request ''action'') \<and>
   submitTransaction db_down pol003_request simulation_server =
     Inr (pol003_simulated, simulation_server\<lparr>sim_actions := [pol003_simulated]\<rparr>) \<and>
   db_fault db_down = Some ''connection refused'' \<and>
   create db_down pol003_request simulation_server =
     (Ok_record pol003_simulated, simulation_server\<lparr>sim_actions := [pol003_simulated]\<rparr>) \<and>
   sim_actions (simulation_server\<lparr>sim_actions := [pol003_simulated]\<rparr>) = [pol003_simulated] \<and>
   compliance_actions (simulation_server\<lparr>sim_actions := [pol003_simulated]\<rparr>) = []"
proof -
  have p: "truthy (map_of pol003_request ''policyId'')" and a: "truthy (map_of pol003_request ''action'')"
    by (simp_all add: pol003_request_def)
  have sub: "submitTransaction db_down pol003_request simulation_server =
     Inr (pol003_simulated, simulation_server\<lparr>sim_actions := [pol003_simulated]\<rparr>)"
    by (simp add: eval_create eval_env pol003_request_def pol003_simulated_def simulation_server_eq)
  have f: "db_fault db_down = Some ''connection refused''"
    by (simp add: eval_env)
  from mirror_failure_swallowed [OF p a sub f] p a sub f show ?thesis
    by (simp add: simulation_server_eq)
qed

text \<open>
  Claim C7, as stated, fails. The handler does not read a field \<open>actionTaken\<close>: the
  request of the scenario with the action under \<open>action\<close>, in which \<open>actionTaken\<close> is
  missing, is accepted, answered with a record, and written to the ledger and to the
  index.
\<close>

theorem missing_actionTaken_accepted:
  "map_of pol003_request ''actionTaken'' = None \<and>
   create healthy pol003_request simulation_server =
     (Ok_record pol003_simulated,
      simulation_server\<lparr>sim_actions := [pol003_simulated], compliance_actions := [pol003_row]\<rparr>)"
  by (simp add: create_healthy_sim) (simp add: pol003_request_def)

text \<open>
  Claim C7, amended. The two fields the handler requires are \<open>policyId\<close> and \<open>action\<close>,
  and the test is JavaScript's falsiness: a field that is missing, \<^verbatim>\<open>null\<close>,
  \<^verbatim>\<open>false\<close>, 0 or the empty string. When either is falsy the request is answered with
  status 400 \<^verbatim>\<open>Missing required fields\<close> and the state the handler leaves is the state
  it found: nothing was written to the ledger or to the index. When both are truthy,
  which every array and every object is, the request is not answered with that error.
\<close>

theorem create_rejects_missing_fields:
  "(\<not> truthy (map_of actionData ''policyId'') \<or> \<not> truthy (map_of actionData ''action'') \<longrightarrow>
      create e actionData s = (Error 400 ''Missing required fields'', s)) \<and>
   (truthy (map_of actionData ''policyId'') \<and> truthy (map_of actionData ''action'') \<longrightarrow>
      fst (create e actionData s) \<noteq> Error 400 ''Missing required fields'') \<and>
   (truthy v \<longleftrightarrow>
      v \<notin> {None, Some JNull, Some (JBool False), Some (JNum 0), Some (JStr [])})"
proof -
  have rejected: "create e actionData s = (Error 400 ''Missing required fields'', s)"
    if "\<not> truthy (map_of actionData ''policyId'') \<or> \<not> truthy (map_of actionData ''action'')"
    using that by (auto simp add: create_def)
  have passed: "fst (create e actionData s) \<noteq> Error 400 ''Missing required fields''"
    if "truthy (map_of actionData ''policyId'') \<and> truthy (map_of actionData ''action'')"
    using that by (simp add: create_def split: sum.splits prod.splits)
  have falsy: "truthy v \<longleftrightarrow>
      v \<notin> {None, Some JNull, Some (JBool False), Some (JNum 0), Some (JStr [])}"
  proof (cases v)
    case None
    then show ?thesis by simp
  next
    case (Some a)
    then show ?thesis by (cases a) auto
  qed
  from rejected passed falsy show ?thesis by blast
qed

theorem create_rejects_missing_fields_witness:
  "map_of scenario_request ''actionTaken'' = Some (JStr ''BLOCK_RDP_PORT'') \<and>
   \<not> truthy (map_of scenario_request ''action'') \<and>
   create healthy scenario_request simulation_server =
     (Error 400 ''Missing required fields'', simulation_server) \<and>
   truthy (map_of empty_containers_request ''policyId'') \<and>
   truthy (map_of empty_containers_request ''action'') \<and>
   fst (create healthy empty_containers_request simulation_server) \<noteq>
     Error 400 ''Missing required fields''"
proof -
  have given: "map_of scenario_request ''actionTaken'' = Some (JStr ''BLOCK_RDP_PORT'')"
    and absent: "\<not> truthy (map_of scenario_request ''action'')"
    by (simp_all add: scenario_request_def)
  have p: "truthy (map_of empty_containers_request ''policyId'')"
    and a: "truthy (map_of empty_containers_request ''action'')"
    by (simp_all add: empty_containers_request_def)
  from create_rejects_missing_fields [of scenario_request healthy simulation_server None] absent
  have rejected: "create healthy scenario_request simulation_server =
      (Error 400 ''Missing required fields'', simulation_server)"
    by blast
  from create_rejects_missing_fields [of empty_containers_request healthy simulation_server None] p a
  have passed: "fst (create healthy empty_containers_request simulation_server) \<noteq>
      Error 400 ''Missing required fields''"
    by blast
  from given absent rejected p a passed show ?thesis by blast
qed




text \<open>
  Claim C9. The flag \<^verbatim>\<open>blockchainEnabled\<close> is set by \<^verbatim>\<open>connectToBlockchain\<close> at
  start-up, to whether every step of the handshake succeeded, and no request changes it:
  after any sequence of requests it has the value start-up gave it. When the handshake
  failed, in every state the process reaches the write goes to the simulation backend
  and the read comes from it, whatever the Fabric network would answer, and the Fabric
  ledger is never written.
\<close>

theorem backend_pinned_at_startup:
  "blockchainEnabled (snd (run reqs (startServer cfg ws rows pols))) =
     blockchainEnabled (startServer cfg ws rows pols) \<and>
   blockchainEnabled (startServer cfg ws rows pols) = handshake_ok cfg \<and>
   (\<not> handshake_ok cfg \<longrightarrow>
      submitTransaction e actionData (snd (run reqs (startServer cfg ws rows pols))) =
        Inr (fst (sim_submitTransaction e actionData
                    (sim_actions (snd (run reqs (startServer cfg ws rows pols))))),
             (snd (run reqs (startServer cfg ws rows pols)))
               \<lparr>sim_actions := snd (sim_submitTransaction e actionData
                    (sim_actions (snd (run reqs (startServer cfg ws rows pols)))))\<rparr>) \<and>
      evaluateTransaction e (snd (run reqs (startServer cfg ws rows pols))) =
        Inr (sim_actions (snd (run reqs (startServer cfg ws rows pols)))) \<and>
      world_state (snd (run reqs (startServer cfg ws rows pols))) = ws)"
proof -
  let ?init = "startServer cfg ws rows pols"
  let ?st = "snd (run reqs ?init)"
  have flag: "blockchainEnabled ?st = blockchainEnabled ?init" by (rule run_flag)
  have start: "blockchainEnabled ?init = handshake_ok cfg" by (rule startServer_flag)
  have pinned: "submitTransaction e actionData ?st =
        Inr (fst (sim_submitTransaction e actionData (sim_actions ?st)),
             ?st\<lparr>sim_actions := snd (sim_submitTransaction e actionData (sim_actions ?st))\<rparr>) \<and>
      evaluateTransaction e ?st = Inr (sim_actions ?st) \<and> world_state ?st = ws"
    if "\<not> handshake_ok cfg"
  proof -
    from that start have off_init: "\<not> blockchainEnabled ?init" by simp
    with flag have off: "\<not> blockchainEnabled ?st" by simp
    have "world_state ?st = world_state ?init" using off_init by (rule run_world_state)
    then have "world_state ?st = ws" by (simp add: startServer_world_state)
    with local_submit [OF off] local_evaluate [OF off] show ?thesis by simp
  qed
  from flag start pinned show ?thesis by blast
qed

theorem backend_pinned_at_startup_witness:
  "\<not> handshake_ok handshake_fails \<and>
   \<not> blockchainEnabled (snd (run [(ledger_down, Create pol003_request)] (startServer handshake_fails [] [] []))) \<and>
   evaluateTransaction ledger_down (snd (run [(ledger_down, Create pol003_request)] (startServer handshake_fails [] [] []))) =
     Inr (sim_actions (snd (run [(ledger_down, Create pol003_request)] (startServer handshake_fails [] [] [])))) \<and>
   world_state (snd (run [(ledger_down, Create pol003_request)] (startServer handshake_fails [] [] []))) = []"
  using backend_pinned_at_startup
    [of "[(ledger_down, Create pol003_request)]" handshake_fails "[]" "[]" "[]" ledger_down pol003_request]
  by (simp add: handshake_ok_def handshake_fails_def configured_def)

text \<open>
  Claim C10. Whatever the payload holds, the record the simulation backend builds has
  status EXECUTED and the block hash \<^verbatim>\<open>simulated-\<close> followed by the random suffix, and
  it is the record appended to the backend's array; hence in every state the process
  reaches, every record of that array has status EXECUTED and a block hash that begins
  with \<^verbatim>\<open>simulated-\<close>.
\<close>

theorem simulation_records_executed:
  "map_of (fst (sim_submitTransaction e actionData actions)) ''status'' = Some (JStr ''EXECUTED'') \<and>
   map_of (fst (sim_submitTransaction e actionData actions)) ''blockHash'' =
     Some (JStr (''simulated-'' @ rand36 e)) \<and>
   snd (sim_submitTransaction e actionData actions) =
     actions @ [fst (sim_submitTransaction e actionData actions)] \<and>
   (\<forall>r \<in> set (sim_actions (snd (run reqs (startServer cfg ws rows pols)))).
      map_of r ''status'' = Some (JStr ''EXECUTED'') \<and> simulated_hash r)"
proof -
  have "list_all sim_record_ok (sim_actions (snd (run reqs (startServer cfg ws rows pols))))"
    by (rule run_sim_actions) (simp add: startServer_sim_actions)
  then show ?thesis
    by (simp add: sim_record_status sim_record_blockHash sim_record_pushed list_all_iff
        sim_record_ok_def)
qed

theorem simulation_records_executed_witness:
  "sim_actions (snd (run [(healthy, Create failed_status_request)] (startServer not_configured [] [] []))) =
     [failed_status_simulated] \<and>
   map_of failed_status_simulated ''status'' = Some (JStr ''EXECUTED'') \<and>
   simulated_hash failed_status_simulated"
  using simulation_records_executed
    [of healthy failed_status_request "[]" "[(healthy, Create failed_status_request)]" not_configured "[]" "[]" "[]"]
  by (simp add: run_failed_status failed_status_simulated_def del: run.simps)

section \<open>Where the identifier of a record comes from\<close>

text \<open>
  Property X1. With the Fabric backend, the record a create call answers with has the
  identifier \<^verbatim>\<open>uuidv4()\<close> returned, whatever the request holds, and the ledger holds
  the record under that identifier.
\<close>

theorem fabric_id_generated:
  assumes "blockchainEnabled s" and "create e actionData s = (Ok_record r, s1)"
  shows "map_of r ''id'' = Some (JStr (uuid e)) \<and> map_of (world_state s1) (uuid e) = Some r"
proof -
  from assms obtain mid where sub: "submitTransaction e actionData s = Inr (r, mid)"
    and s1: "s1 = store_in_database e r mid"
    by (auto simp add: create_def triggerEnforcement_def split: if_splits sum.splits)
  from sub assms(1) have r: "r = fst (ExecuteComplianceAction e actionData (world_state s))"
    and mid: "world_state mid = snd (ExecuteComplianceAction e actionData (world_state s))"
    by (auto simp add: submitTransaction_def split_beta split: option.splits)
  have "world_state s1 = world_state mid"
    using s1 by (simp add: store_in_database_def split: option.splits)
  with r mid show ?thesis
    by (simp add: chaincode_record_fields(2) chaincode_record_put)
qed

theorem fabric_id_generated_witness:
  "blockchainEnabled fabric_server \<and>
   map_of client_id_request ''id'' = Some (JStr ''chosen-by-client'') \<and>
   fst (create healthy client_id_request fabric_server) = Ok_record pol003_committed \<and>
   map_of pol003_committed ''id'' = Some (JStr ''3f2b8c1e'')"
proof -
  have on: "blockchainEnabled fabric_server" by (simp add: fabric_server_eq)
  from fabric_id_generated [OF on create_client_id_fabric]
  have "map_of pol003_committed ''id'' = Some (JStr (uuid healthy))" by (rule conjunct1)
  then have gen: "map_of pol003_committed ''id'' = Some (JStr ''3f2b8c1e'')"
    by (simp add: healthy_def)
  have req: "map_of client_id_request ''id'' = Some (JStr ''chosen-by-client'')"
    by (simp add: client_id_request_def)
  have resp: "fst (create healthy client_id_request fabric_server) = Ok_record pol003_committed"
    by (simp only: create_client_id_fabric fst_conv)
  from on req resp gen show ?thesis by blast
qed

text \<open>
  Property X2. With the simulation backend, the record a create call answers with has
  the \<open>id\<close> of the request, as \<^verbatim>\<open>JSON.stringify\<close> and \<^verbatim>\<open>JSON.parse\<close> leave it,
  when the request has one, and the identifier \<^verbatim>\<open>uuidv4()\<close> returned otherwise.
\<close>

theorem simulation_id_from_request:
  assumes "\<not> blockchainEnabled s" and "create e actionData s = (Ok_record r, s1)"
  shows "map_of r ''id'' =
           (case map_of actionData ''id'' of
              None \<Rightarrow> Some (JStr (uuid e))
            | Some v \<Rightarrow> Some (reparse v))"
proof -
  from assms obtain mid where sub: "submitTransaction e actionData s = Inr (r, mid)"
    by (auto simp add: create_def triggerEnforcement_def split: if_splits sum.splits)
  with assms(1) have "r = fst (sim_submitTransaction e actionData (sim_actions s))"
    by (simp add: local_submit)
  then show ?thesis by (simp add: sim_record_id)
qed

theorem simulation_id_from_request_witness:
  "\<not> blockchainEnabled simulation_server \<and>
   map_of pol003_request ''id'' = None \<and>
   fst (create healthy pol003_request simulation_server) = Ok_record pol003_simulated \<and>
   map_of pol003_simulated ''id'' = Some (JStr (uuid healthy))"
proof -
  have off: "\<not> blockchainEnabled simulation_server" by (simp add: simulation_server_eq)
  have req: "map_of pol003_request ''id'' = None" by (simp add: pol003_request_def)
  from simulation_id_from_request [OF off create_healthy_sim] req
  have gen: "map_of pol003_simulated ''id'' = Some (JStr (uuid healthy))" by simp
  have resp: "fst (create healthy pol003_request simulation_server) = Ok_record pol003_simulated"
    by (simp only: create_healthy_sim fst_conv)
  from off req resp gen show ?thesis by blast
qed

end
